theory Spec2Isabelle
  imports Complex_Main
begin

section \<open>GameNerd: the two-call chat service\<close>

text \<open>
  A shallow embedding of \<^verbatim>\<open>app/api/openai_service.py\<close> (Gatherer, Composer,
  Orchestrator, Schema Registry) and of the chat route of \<^verbatim>\<open>app/main.py\<close>
  (History Store).

  Python strings are modelled as \<^typ>\<open>string\<close>; a character outside ASCII stands for
  its UTF-8 bytes. The OpenAI client is a parameter of the model: a function from the
  request the code builds to what the call does (it raises, or it returns a list of
  choices). \<^verbatim>\<open>json.loads\<close> is a parameter as well. An exception is a value carrying the
  two things the code reads from it: \<^verbatim>\<open>type(e).__name__\<close> and \<^verbatim>\<open>str(e)\<close>. The
  \<^verbatim>\<open>print\<close> and \<^verbatim>\<open>traceback.print_exc\<close> calls write to the log only and are left out.
\<close>

subsection \<open>String operations of Python used by the code\<close>

definition newline :: char where
  "newline = CHR 0x0A"

text \<open>\<^verbatim>\<open>str.lower\<close> on the ASCII letters; every other character is left as it is.\<close>

definition lower_char :: "char \<Rightarrow> char" where
  "lower_char c =
     (case map_of (zip ''ABCDEFGHIJKLMNOPQRSTUVWXYZ'' ''abcdefghijklmnopqrstuvwxyz'') c of
        Some l \<Rightarrow> l
      | None \<Rightarrow> c)"

definition lower :: "string \<Rightarrow> string" where
  "lower s = map lower_char s"

text \<open>\<^verbatim>\<open>s.startswith(p)\<close>.\<close>

fun startswith :: "string \<Rightarrow> string \<Rightarrow> bool" where
  "startswith s [] = True"
| "startswith [] (p # ps) = False"
| "startswith (c # cs) (p # ps) = (c = p \<and> startswith cs ps)"

text \<open>\<^verbatim>\<open>sub in s\<close>: \<open>sub\<close> occurs in \<open>s\<close> as a contiguous substring.\<close>

fun contains :: "string \<Rightarrow> string \<Rightarrow> bool" where
  "contains [] sub = (sub = [])"
| "contains (c # cs) sub = (startswith (c # cs) sub \<or> contains cs sub)"

text \<open>\<^verbatim>\<open>xs[-n:]\<close>: the last \<open>n\<close> elements (all of them when there are fewer).\<close>

definition lastn :: "nat \<Rightarrow> 'a list \<Rightarrow> 'a list" where
  "lastn n xs = drop (length xs - n) xs"

subsection \<open>The link-stripping substitution\<close>

text \<open>
  Line 201 of the service:
  \<^verbatim>\<open>re.sub(r'\[(.*?)\]\(http[s]?://.*?\)', r'\1', response_message.content)\<close>.

  The pattern is matched by a backtracking matcher; the functions below follow it piece
  by piece. Without the DOTALL flag \<^verbatim>\<open>.\<close> matches every character but the newline.

  \<open>match_url\<close> is \<^verbatim>\<open>.*?\)\<close>: the lazy star takes the fewest characters, so the match
  ends at the first \<^verbatim>\<open>)\<close>, and fails when a newline or the end of the text comes
  before one. It returns the text after the match.
\<close>

fun match_url :: "string \<Rightarrow> string option" where
  "match_url [] = None"
| "match_url (c # cs) =
     (if c = CHR '')'' then Some cs
      else if c = newline then None
      else match_url cs)"

text \<open>A literal piece of the pattern: the text after it, when the text starts with it.\<close>

fun strip_prefix :: "string \<Rightarrow> string \<Rightarrow> string option" where
  "strip_prefix [] s = Some s"
| "strip_prefix (p # ps) [] = None"
| "strip_prefix (p # ps) (c # cs) = (if p = c then strip_prefix ps cs else None)"

text \<open>
  \<open>match_tail\<close> is \<^verbatim>\<open>\]\(http[s]?://.*?\)\<close>. The optional \<^verbatim>\<open>[s]?\<close> is greedy: the
  matcher first takes an \<^verbatim>\<open>s\<close> when there is one, and tries again without it when
  the rest fails.
\<close>

definition match_scheme_rest :: "string \<Rightarrow> string option" where
  "match_scheme_rest s =
     (case strip_prefix ''://'' s of
        None \<Rightarrow> None
      | Some r \<Rightarrow> match_url r)"

definition match_tail :: "string \<Rightarrow> string option" where
  "match_tail s =
     (case strip_prefix ''](http'' s of
        None \<Rightarrow> None
      | Some r \<Rightarrow>
          (case (case strip_prefix ''s'' r of
                   None \<Rightarrow> None
                 | Some r1 \<Rightarrow> match_scheme_rest r1) of
             Some e \<Rightarrow> Some e
           | None \<Rightarrow> match_scheme_rest r))"

text \<open>
  \<open>match_group\<close> is \<^verbatim>\<open>(.*?)\<close> followed by the tail, on the text after the opening
  bracket: the lazy star first tries the empty group, then one more character at a time,
  never a newline. It returns the captured group and the text after the whole match.
\<close>

fun match_group :: "string \<Rightarrow> (string \<times> string) option" where
  "match_group s =
     (case match_tail s of
        Some r \<Rightarrow> Some ([], r)
      | None \<Rightarrow>
          (case s of
             [] \<Rightarrow> None
           | c # cs \<Rightarrow>
               (if c = newline then None
                else map_option (\<lambda>(g, r). (c # g, r)) (match_group cs))))"

declare match_group.simps [simp del]

text \<open>The text up to the first newline: neither star of the pattern reads further.\<close>

definition first_line :: "string \<Rightarrow> string" where
  "first_line s = takeWhile (\<lambda>c. c \<noteq> newline) s"

lemma match_url_shorter: "match_url s = Some r \<Longrightarrow> length r < length s"
  by (induction s) (auto split: if_splits)

lemma strip_prefix_append: "strip_prefix p s = Some r \<Longrightarrow> s = p @ r"
  by (induction p s rule: strip_prefix.induct) (auto split: if_splits)

lemma match_scheme_rest_shorter: "match_scheme_rest s = Some r \<Longrightarrow> length r < length s"
  by (auto simp: match_scheme_rest_def split: option.splits
           dest!: strip_prefix_append match_url_shorter)

lemma match_tail_shorter: "match_tail s = Some r \<Longrightarrow> length r < length s"
  by (auto simp: match_tail_def split: option.splits
           dest!: strip_prefix_append match_scheme_rest_shorter)

lemma match_group_shorter: "match_group s = Some (g, r) \<Longrightarrow> length r < length s"
proof (induction s arbitrary: g)
  case Nil
  then show ?case
    by (auto simp: match_group.simps [of "[]"] split: option.splits dest: match_tail_shorter)
next
  case (Cons c cs)
  then show ?case
    by (auto simp: match_group.simps [of "c # cs"] split: option.splits if_splits
             dest: match_tail_shorter)
qed

text \<open>
  \<^verbatim>\<open>re.sub\<close> scans from the left: at each position it tries the pattern; a match is
  replaced by its group and the scan goes on after the match, otherwise the character is
  kept and the scan moves one character on. (The pattern never matches the empty string.)
\<close>

function strip_links :: "string \<Rightarrow> string" where
  "strip_links [] = []"
| "strip_links (c # cs) =
     (if c = CHR ''[''
      then (case match_group cs of
              Some (g, r) \<Rightarrow> g @ strip_links r
            | None \<Rightarrow> c # strip_links cs)
      else c # strip_links cs)"
  by pat_completeness auto
termination
  by (relation "measure length") (auto dest: match_group_shorter)

text \<open>The groups captured by the matches of that scan, in order.\<close>

function link_texts :: "string \<Rightarrow> string list" where
  "link_texts [] = []"
| "link_texts (c # cs) =
     (if c = CHR ''[''
      then (case match_group cs of
              Some (g, r) \<Rightarrow> g # link_texts r
            | None \<Rightarrow> link_texts cs)
      else link_texts cs)"
  by pat_completeness auto
termination
  by (relation "measure length") (auto dest: match_group_shorter)

subsection \<open>Data model\<close>

text \<open>An exception, as far as the code looks at it: its class name and \<^verbatim>\<open>str(e)\<close>.\<close>

datatype exn = Exn (exn_type: string) (exn_msg: string)

text \<open>
  A value produced by \<^verbatim>\<open>json.loads\<close>. A \<^verbatim>\<open>dict\<close> keeps its keys in insertion order.
\<close>

datatype json =
    JNull
  | JBool bool
  | JInt int
  | JFloat real
  | JStr string
  | JArr "json list"
  | JObj "(string \<times> json) list"

text \<open>\<^verbatim>\<open>d[k] = v\<close> on a \<^verbatim>\<open>dict\<close>.\<close>

fun dict_set :: "string \<Rightarrow> json \<Rightarrow> (string \<times> json) list \<Rightarrow> (string \<times> json) list" where
  "dict_set k v [] = [(k, v)]"
| "dict_set k v ((k', v') # kvs) =
     (if k' = k then (k, v) # kvs else (k', v') # dict_set k v kvs)"

text \<open>A conversation turn, \<^verbatim>\<open>{"role": ..., "content": ...}\<close>.\<close>

record message =
  role :: string
  content :: string

text \<open>
  The parameter schemas of the tools. The code hands them to the provider and never looks
  inside, so each is named here, not spelled out.
\<close>

datatype schema =
    SCHEMA_DATA_H2H
  | SCHEMA_DATA_MATCH_SCHEDULE_TABLE
  | SCHEMA_DATA_STANDINGS_TABLE
  | SCHEMA_DATA_PLAYER_PROFILE
  | SCHEMA_DATA_TEAM_NEWS

text \<open>An entry of \<^verbatim>\<open>TOOLS_AVAILABLE\<close>: \<^verbatim>\<open>{"type": "function", "function": {...}}\<close>.\<close>

record tool =
  tool_type :: string
  tool_name :: string
  tool_description :: string
  tool_parameters :: schema

text \<open>
  The keyword arguments of \<^verbatim>\<open>client.chat.completions.create\<close>. An argument that is
  not passed, or passed as \<^verbatim>\<open>None\<close>, is \<open>None\<close>.
\<close>

record request =
  model :: string
  messages :: "message list"
  tools :: "tool list option"
  tool_choice :: "string option"
  temperature :: "real option"

text \<open>A tool call of the model: \<^verbatim>\<open>function.name\<close> and \<^verbatim>\<open>function.arguments\<close>.\<close>

record tool_call =
  call_name :: string
  call_arguments :: string

text \<open>\<^verbatim>\<open>response.choices[i].message\<close>: both fields may be \<^verbatim>\<open>None\<close>.\<close>

record response_message =
  msg_content :: "string option"
  msg_tool_calls :: "tool_call list option"

text \<open>What a call to the provider does: it raises, or returns its list of choices.\<close>

datatype completion = Raises exn | Returns "response_message list"

type_synonym provider = "request \<Rightarrow> completion"

text \<open>\<^verbatim>\<open>json.loads\<close>: the parsed value, or the exception it raises.\<close>

type_synonym json_loads = "string \<Rightarrow> exn + json"

record ui_payload =
  component_type :: string
  data :: json

record chat_result =
  reply :: string
  ui_data :: ui_payload

subsection \<open>Schema registry\<close>

definition TOOLS_AVAILABLE :: "tool list" where
  "TOOLS_AVAILABLE =
     [\<lparr>tool_type = ''function'', tool_name = ''present_h2h_comparison'',
       tool_description = ''Presents a head-to-head comparison between two teams.'',
       tool_parameters = SCHEMA_DATA_H2H\<rparr>,
      \<lparr>tool_type = ''function'', tool_name = ''display_standings_table'',
       tool_description = ''Displays a league standings table.'',
       tool_parameters = SCHEMA_DATA_STANDINGS_TABLE\<rparr>,
      \<lparr>tool_type = ''function'', tool_name = ''show_match_schedule'',
       tool_description = ''Shows a schedule of upcoming matches for a specific day or period.'',
       tool_parameters = SCHEMA_DATA_MATCH_SCHEDULE_TABLE\<rparr>,
      \<lparr>tool_type = ''function'', tool_name = ''get_player_profile'',
       tool_description = ''Retrieves detailed information about a sports player.'',
       tool_parameters = SCHEMA_DATA_PLAYER_PROFILE\<rparr>,
      \<lparr>tool_type = ''function'', tool_name = ''get_team_news'',
       tool_description = ''Fetches latest news articles for a specific sports team.'',
       tool_parameters = SCHEMA_DATA_TEAM_NEWS\<rparr>]"

definition TOOL_NAME_TO_COMPONENT_TYPE :: "(string \<times> string) list" where
  "TOOL_NAME_TO_COMPONENT_TYPE =
     [(''present_h2h_comparison'', ''h2h_comparison_table''),
      (''display_standings_table'', ''standings_table''),
      (''show_match_schedule'', ''match_schedule_table''),
      (''get_player_profile'', ''player_profile_card''),
      (''get_team_news'', ''news_article_list'')]"

text \<open>\<^verbatim>\<open>TOOL_NAME_TO_COMPONENT_TYPE.get(function_name, "generic_text")\<close>.\<close>

definition component_type_for :: "string \<Rightarrow> string" where
  "component_type_for function_name =
     (case map_of TOOL_NAME_TO_COMPONENT_TYPE function_name of
        Some t \<Rightarrow> t
      | None \<Rightarrow> ''generic_text'')"

subsection \<open>Data Gatherer: \<^verbatim>\<open>gather_real_time_data\<close>\<close>

definition gather_system_prompt :: string where
  \<open>gather_system_prompt =
     ''\<newline>'' @
     ''    You are a highly-capable Sports Information Gatherer.\<newline>'' @
     ''    Your task is to fully understand the user's query in the context of the conversation history.\<newline>'' @
     ''    Then, use your search capabilities to find the most relevant, accurate, and up-to-date information.\<newline>'' @
     ''    Compile all the factual information you find'' @
     [CHR 0xE2, CHR 0x80, CHR 0x94] @
     ''such as statistics, schedules, player details, team news, head-to-head records, or live scores'' @
     [CHR 0xE2, CHR 0x80, CHR 0x94] @
     ''into a single, comprehensive text block.\<newline>'' @
     ''    Do NOT format this as a chat response. Do NOT use tools. Just return the raw, gathered data.\<newline>'' @
     ''    If the query is conversational (e.g., "hello", "who are you?", "thanks") or clearly out-of-scope (e.g., "what is the capital of France?"), state that no data fetching is required.\<newline>'' @
     ''    ''\<close>

text \<open>The system prompt, the last six turns of the history, then the query.\<close>

definition windowed_messages :: "string \<Rightarrow> message list \<Rightarrow> string \<Rightarrow> message list" where
  "windowed_messages system_prompt conversation_history user_query =
     [\<lparr>role = ''system'', content = system_prompt\<rparr>]
     @ lastn 6 conversation_history
     @ [\<lparr>role = ''user'', content = user_query\<rparr>]"

definition gather_request :: "string \<Rightarrow> message list \<Rightarrow> request" where
  "gather_request user_query conversation_history =
     \<lparr>model = ''gpt-4o-search-preview'',
      messages = windowed_messages gather_system_prompt conversation_history user_query,
      tools = None, tool_choice = None, temperature = None\<rparr>"

text \<open>
  The body of the \<^verbatim>\<open>try\<close> block. \<^verbatim>\<open>response.choices[0]\<close> raises IndexError on an
  empty list; with a \<^verbatim>\<open>content\<close> of \<^verbatim>\<open>None\<close> the slice \<^verbatim>\<open>gathered_data[:200]\<close> in the
  log line raises TypeError before the \<^verbatim>\<open>return\<close>.
\<close>

definition gather_try :: "provider \<Rightarrow> string \<Rightarrow> message list \<Rightarrow> exn + string" where
  "gather_try client user_query conversation_history =
     (case client (gather_request user_query conversation_history) of
        Raises e \<Rightarrow> Inl e
      | Returns choices \<Rightarrow>
          (case choices of
             [] \<Rightarrow> Inl (Exn ''IndexError'' ''list index out of range'')
           | response_message # _ \<Rightarrow>
               (case msg_content response_message of
                  None \<Rightarrow>
                    Inl (Exn ''TypeError'' ([CHR 0x27] @ ''NoneType' object is not subscriptable''))
                | Some gathered_data \<Rightarrow> Inr gathered_data)))"

text \<open>The function: \<open>Inl\<close> would be an exception that reaches the caller.\<close>

definition gather_real_time_data :: "provider \<Rightarrow> string \<Rightarrow> message list \<Rightarrow> exn + string" where
  "gather_real_time_data client user_query conversation_history =
     (case gather_try client user_query conversation_history of
        Inr gathered_data \<Rightarrow> Inr gathered_data
      | Inl e \<Rightarrow>
          Inr (''Error: Could not gather information due to an internal error: '' @ exn_msg e))"

subsection \<open>Response Composer: \<^verbatim>\<open>generate_final_response_with_tools\<close>\<close>

definition default_response :: chat_result where
  "default_response =
     \<lparr>reply = ''I'm sorry, I had trouble processing the sports information. Please try rephrasing your request.'',
      ui_data = \<lparr>component_type = ''generic_text'', data = JObj []\<rparr>\<rparr>"

definition conversational_system_prompt :: string where
  \<open>conversational_system_prompt =
     ''\<newline>'' @
     ''        You are GameNerd, a friendly and helpful sports AI assistant.\<newline>'' @
     ''        Based on the user's query and conversation history, provide a direct, conversational response.\<newline>'' @
     ''        If the user is asking about you, introduce yourself.\<newline>'' @
     ''        If the query is out of scope, politely state that you only handle sports and gaming topics.\<newline>'' @
     ''        Do NOT use any tools. Do NOT include markdown links or URLs.\<newline>'' @
     ''        ''\<close>

definition presentation_system_prompt :: string where
  \<open>presentation_system_prompt =
     ''\<newline>'' @
     ''        You are GameNerd, an expert sports AI assistant.\<newline>'' @
     ''        Your goal is to present information clearly to the user. You have been provided with a block of raw data.\<newline>'' @
     ''\<newline>'' @
     ''        Your tasks are:\<newline>'' @
     ''        1. Write a friendly, concise, and helpful text `reply` to the user's query based on the provided data.\<newline>'' @
     ''        2. Analyze the provided data and the user's original request.\<newline>'' @
     ''        3. Select the SINGLE most appropriate `tool` from the available list to structure the key information for a UI display.\<newline>'' @
     ''        4. Populate the arguments for your chosen tool completely and accurately using the provided data.\<newline>'' @
     ''        \<newline>'' @
     ''        CRITICAL:\<newline>'' @
     ''        - You MUST call a tool if the query is data-related (schedules, stats, etc.).\<newline>'' @
     ''        - Your text `reply` must NOT contain any markdown links or URLs. Mention sources by name only if necessary.\<newline>'' @
     ''        ''\<close>

definition user_content :: "string \<Rightarrow> string \<Rightarrow> string" where
  \<open>user_content user_query gathered_data =
     ''\<newline>'' @
     ''        Here is the user's original query: "'' @
     user_query @
     ''"\<newline>'' @
     ''\<newline>'' @
     ''        Here is the raw information I gathered for you:\<newline>'' @
     ''        <DATA_BLOCK>\<newline>'' @
     ''        '' @
     gathered_data @
     ''\<newline>'' @
     ''        </DATA_BLOCK>\<newline>'' @
     ''\<newline>'' @
     ''        Now, please perform your tasks as instructed.\<newline>'' @
     ''        ''\<close>

text \<open>The condition of line 142, which chooses between the two prompts.\<close>

definition no_data_mode :: "string \<Rightarrow> bool" where
  "no_data_mode gathered_data \<longleftrightarrow>
     contains (lower gathered_data) ''no data fetching is required''
     \<or> startswith gathered_data ''Error:''"

definition compose_messages :: "string \<Rightarrow> message list \<Rightarrow> string \<Rightarrow> message list" where
  "compose_messages user_query conversation_history gathered_data =
     (if no_data_mode gathered_data
      then windowed_messages conversational_system_prompt conversation_history user_query
      else [\<lparr>role = ''system'', content = presentation_system_prompt\<rparr>,
            \<lparr>role = ''user'', content = user_content user_query gathered_data\<rparr>])"

text \<open>The condition of lines 191 and 192, which decides whether the tools are passed.\<close>

definition tools_attached :: "string \<Rightarrow> bool" where
  "tools_attached gathered_data \<longleftrightarrow> \<not> contains (lower gathered_data) ''no data fetching''"

definition compose_request :: "string \<Rightarrow> message list \<Rightarrow> string \<Rightarrow> request" where
  "compose_request user_query conversation_history gathered_data =
     \<lparr>model = ''gpt-4o'',
      messages = compose_messages user_query conversation_history gathered_data,
      tools = (if tools_attached gathered_data then Some TOOLS_AVAILABLE else None),
      tool_choice = (if tools_attached gathered_data then Some ''auto'' else None),
      temperature = Some 0.2\<rparr>"

text \<open>Python's truth value of an optional string: \<^verbatim>\<open>None\<close> and \<^verbatim>\<open>""\<close> are false.\<close>

definition truthy :: "string option \<Rightarrow> bool" where
  "truthy c \<longleftrightarrow> (case c of None \<Rightarrow> False | Some s \<Rightarrow> s \<noteq> [])"

text \<open>
  Lines 196 to 224, on the first choice of the response. \<open>final_response\<close> is the
  dictionary the code updates as it goes; when a statement raises, the handler sees the
  dictionary as it is at that point, so a raise carries it along.
\<close>

definition interpret_message ::
  "json_loads \<Rightarrow> chat_result \<Rightarrow> response_message \<Rightarrow> (exn \<times> chat_result) + chat_result" where
  "interpret_message loads final_response response_message =
     (let final_response1 =
            (case msg_content response_message of
               Some text \<Rightarrow>
                 (if text \<noteq> [] then final_response\<lparr>reply := strip_links text\<rparr>
                  else final_response)
             | None \<Rightarrow> final_response)
      in case msg_tool_calls response_message of
           Some (tool_call # _) \<Rightarrow>
             (let function_name = call_name tool_call
              in case loads (call_arguments tool_call) of
                   Inl e \<Rightarrow> Inl (e, final_response1)
                 | Inr function_args \<Rightarrow>
                     (let component_type = component_type_for function_name;
                          final_response2 = final_response1
                            \<lparr>ui_data := \<lparr>component_type = component_type, data = function_args\<rparr>\<rparr>
                      in Inr (if \<not> truthy (msg_content response_message)
                              then final_response2
                                \<lparr>reply := ''Certainly! Here is the information you requested.''\<rparr>
                              else final_response2)))
         | _ \<Rightarrow>
             Inr (if \<not> truthy (msg_content response_message)
                  then final_response1\<lparr>reply := ''I've processed your request.''\<rparr>
                  else final_response1))"

text \<open>The \<^verbatim>\<open>try\<close> block: the call, then \<^verbatim>\<open>response.choices[0].message\<close>.\<close>

definition compose_try ::
  "provider \<Rightarrow> json_loads \<Rightarrow> string \<Rightarrow> message list \<Rightarrow> string
     \<Rightarrow> (exn \<times> chat_result) + chat_result" where
  "compose_try client loads user_query conversation_history gathered_data =
     (case client (compose_request user_query conversation_history gathered_data) of
        Raises e \<Rightarrow> Inl (e, default_response)
      | Returns choices \<Rightarrow>
          (case choices of
             [] \<Rightarrow> Inl (Exn ''IndexError'' ''list index out of range'', default_response)
           | response_message # _ \<Rightarrow> interpret_message loads default_response response_message))"

text \<open>
  The \<^verbatim>\<open>except Exception\<close> block. The assignment
  \<^verbatim>\<open>final_response["ui_data"]["data"]["error"] = str(e)\<close> needs \<^verbatim>\<open>data\<close> to be a
  \<^verbatim>\<open>dict\<close>; on any other value it raises TypeError out of the handler, to the caller.
\<close>

definition compose_except :: "exn \<Rightarrow> chat_result \<Rightarrow> exn + chat_result" where
  "compose_except e final_response =
     (let final_response1 = final_response
            \<lparr>reply := ''An unexpected server error occurred while formatting the response: ''
                       @ exn_msg e\<rparr>
      in case data (ui_data final_response1) of
           JObj entries \<Rightarrow>
             Inr (final_response1
                    \<lparr>ui_data := (ui_data final_response1)
                       \<lparr>data := JObj (dict_set ''error'' (JStr (exn_msg e)) entries)\<rparr>\<rparr>)
         | JArr items \<Rightarrow> Inl (Exn ''TypeError'' ''list indices must be integers or slices, not str'')
         | JStr text \<Rightarrow>
             Inl (Exn ''TypeError'' ([CHR 0x27] @ ''str' object does not support item assignment''))
         | JInt i \<Rightarrow>
             Inl (Exn ''TypeError'' ([CHR 0x27] @ ''int' object does not support item assignment''))
         | JFloat x \<Rightarrow>
             Inl (Exn ''TypeError'' ([CHR 0x27] @ ''float' object does not support item assignment''))
         | JBool b \<Rightarrow>
             Inl (Exn ''TypeError'' ([CHR 0x27] @ ''bool' object does not support item assignment''))
         | JNull \<Rightarrow>
             Inl (Exn ''TypeError''
                    ([CHR 0x27] @ ''NoneType' object does not support item assignment'')))"

definition generate_final_response_with_tools ::
  "provider \<Rightarrow> json_loads \<Rightarrow> string \<Rightarrow> message list \<Rightarrow> string \<Rightarrow> exn + chat_result" where
  "generate_final_response_with_tools client loads user_query conversation_history gathered_data =
     (case compose_try client loads user_query conversation_history gathered_data of
        Inr final_response \<Rightarrow> Inr final_response
      | Inl (e, final_response) \<Rightarrow> compose_except e final_response)"

subsection \<open>Orchestrator: \<^verbatim>\<open>process_user_query\<close>\<close>

definition process_user_query ::
  "provider \<Rightarrow> json_loads \<Rightarrow> string \<Rightarrow> message list \<Rightarrow> exn + chat_result" where
  "process_user_query client loads user_query conversation_history =
     (case gather_real_time_data client user_query conversation_history of
        Inl e \<Rightarrow> Inl e
      | Inr gathered_data \<Rightarrow>
          generate_final_response_with_tools client loads user_query conversation_history
            gathered_data)"

subsection \<open>History Store and the chat route: \<^verbatim>\<open>handle_chat\<close>\<close>

definition HISTORY_LIMIT :: nat where
  "HISTORY_LIMIT = 10"

text \<open>\<^verbatim>\<open>conversation_histories\<close>: from user id to the stored turns.\<close>

type_synonym histories = "string \<rightharpoonup> message list"

text \<open>\<^verbatim>\<open>conversation_histories.get(user_id, [])\<close>.\<close>

definition history_of :: "histories \<Rightarrow> string \<Rightarrow> message list" where
  "history_of conversation_histories user_id =
     (case conversation_histories user_id of None \<Rightarrow> [] | Some h \<Rightarrow> h)"

record chat_request =
  user_id :: string
  query :: string

text \<open>What the route answers: an HTTP error, or a \<^verbatim>\<open>ChatResponse\<close>.\<close>

datatype http_answer = HTTPException nat string | ChatResponse chat_result

text \<open>
  The turns the route appends to the user's history for a result of the service: the
  user's turn, then the assistant's when the reply is not empty.
\<close>

definition appended_turns :: "string \<Rightarrow> chat_result \<Rightarrow> message list" where
  "appended_turns user_query final_result =
     [\<lparr>role = ''user'', content = user_query\<rparr>]
     @ (if reply final_result \<noteq> []
        then [\<lparr>role = ''assistant'', content = reply final_result\<rparr>]
        else [])"

text \<open>
  The route, with the store passed in and returned. An exception of the service is raised
  before anything is appended, so the handler leaves the store as it was.
\<close>

definition handle_chat ::
  "provider \<Rightarrow> json_loads \<Rightarrow> histories \<Rightarrow> chat_request \<Rightarrow> http_answer \<times> histories" where
  "handle_chat client loads conversation_histories request =
     (if query request = []
      then (HTTPException 400 ''Query cannot be empty'', conversation_histories)
      else
        (let current_history = history_of conversation_histories (user_id request)
         in case process_user_query client loads (query request) current_history of
              Inr final_result \<Rightarrow>
                (ChatResponse \<lparr>reply = reply final_result, ui_data = ui_data final_result\<rparr>,
                 conversation_histories
                   (user_id request \<mapsto>
                      lastn HISTORY_LIMIT
                        (current_history @ appended_turns (query request) final_result)))
            | Inl e \<Rightarrow>
                (ChatResponse
                   \<lparr>reply = ''A critical server error ('' @ exn_type e
                              @ '') occurred. Please try again later.'',
                    ui_data = \<lparr>component_type = ''generic_text'',
                               data = JObj [(''error'', JStr (''Server error: '' @ exn_type e))]\<rparr>\<rparr>,
                 conversation_histories)))"

text \<open>
  A run of the route over a sequence of requests, from the left. Each request comes with
  what the provider does while it is served.
\<close>

fun run_chats :: "json_loads \<Rightarrow> histories \<Rightarrow> (provider \<times> chat_request) list \<Rightarrow> histories" where
  "run_chats loads conversation_histories [] = conversation_histories"
| "run_chats loads conversation_histories ((client, request) # rest) =
     run_chats loads (snd (handle_chat client loads conversation_histories request)) rest"

text \<open>
  A successful chat turn: the query is accepted, the service returns, and its reply is
  not empty, so that both the user's and the assistant's turn are stored.
\<close>

definition successful_turn ::
  "provider \<Rightarrow> json_loads \<Rightarrow> histories \<Rightarrow> chat_request \<Rightarrow> bool" where
  "successful_turn client loads conversation_histories request \<longleftrightarrow>
     query request \<noteq> [] \<and>
     (case process_user_query client loads (query request)
             (history_of conversation_histories (user_id request)) of
        Inr final_result \<Rightarrow> reply final_result \<noteq> []
      | Inl e \<Rightarrow> False)"

text \<open>
  Every chat turn of user \<open>u\<close> in a run is successful. The requests of other users may
  go any way.
\<close>

fun turns_successful ::
  "json_loads \<Rightarrow> histories \<Rightarrow> (provider \<times> chat_request) list \<Rightarrow> string \<Rightarrow> bool" where
  "turns_successful loads conversation_histories [] u = True"
| "turns_successful loads conversation_histories ((client, request) # rest) u =
     ((if user_id request = u
       then successful_turn client loads conversation_histories request
       else True) \<and>
      turns_successful loads (snd (handle_chat client loads conversation_histories request))
        rest u)"

text \<open>
  The exchanges of one user in a run, never truncated: the query of each of the user's
  requests with the reply the service gave to it.
\<close>

fun exchanges ::
  "json_loads \<Rightarrow> histories \<Rightarrow> (provider \<times> chat_request) list \<Rightarrow> string
     \<Rightarrow> (string \<times> string) list" where
  "exchanges loads conversation_histories [] u = []"
| "exchanges loads conversation_histories ((client, request) # rest) u =
     (if user_id request = u
      then (case process_user_query client loads (query request)
                   (history_of conversation_histories u) of
              Inr final_result \<Rightarrow> [(query request, reply final_result)]
            | Inl e \<Rightarrow> [])
      else [])
     @ exchanges loads (snd (handle_chat client loads conversation_histories request)) rest u"

text \<open>The turns of a list of exchanges: user, assistant, user, assistant, ...\<close>

fun turns_of :: "(string \<times> string) list \<Rightarrow> message list" where
  "turns_of [] = []"
| "turns_of ((q, a) # rest) =
     \<lparr>role = ''user'', content = q\<rparr> # \<lparr>role = ''assistant'', content = a\<rparr> # turns_of rest"

text \<open>The requests of user \<open>u\<close> in a run.\<close>

definition requests_of :: "(provider \<times> chat_request) list \<Rightarrow> string \<Rightarrow> (provider \<times> chat_request) list" where
  "requests_of steps u = filter (\<lambda>(client, request). user_id request = u) steps"

text \<open>
  A provider honours the tool protocol when a call that offers no tools is never
  answered with a tool call.
\<close>

definition honours_tools :: "provider \<Rightarrow> bool" where
  "honours_tools client \<longleftrightarrow>
     (\<forall>req response_message rest.
        tools req = None \<longrightarrow> client req = Returns (response_message # rest) \<longrightarrow>
        msg_tool_calls response_message = None \<or> msg_tool_calls response_message = Some [])"

subsection \<open>Providers and a parser for the examples\<close>

text \<open>
  An instance of the \<^verbatim>\<open>json.loads\<close> parameter: it agrees with \<^verbatim>\<open>json.loads\<close> on the
  argument texts that occur in the examples below.
\<close>

definition example_loads :: json_loads where
  \<open>example_loads s =
     (if s = ''{}'' then Inr (JObj [])
      else if s = ''{"league_name": "Premier League", "standings": []}''
      then Inr (JObj [(''league_name'', JStr ''Premier League''), (''standings'', JArr [])])
      else Inl (Exn ''JSONDecodeError''
                  ''Expecting property name enclosed in double quotes: line 1 column 2 (char 1)''))\<close>

text \<open>A provider that is unreachable: every call raises.\<close>

definition offline_client :: provider where
  "offline_client req = Raises (Exn ''APIConnectionError'' ''Connection error.'')"

text \<open>
  A provider in a small-talk exchange: the search model answers with the sentinel, the
  chat model with a greeting and no tool call.
\<close>

definition smalltalk_client :: provider where
  "smalltalk_client req =
     (if model req = ''gpt-4o-search-preview''
      then Returns [\<lparr>msg_content = Some ''No data fetching is required.'', msg_tool_calls = None\<rparr>]
      else Returns [\<lparr>msg_content = Some ''Hello! I am GameNerd.'', msg_tool_calls = None\<rparr>])"

text \<open>
  A provider in a data exchange: the search model answers with standings, the chat model
  with a text and, when tools are offered, two tool calls.
\<close>

definition standings_client :: provider where
  \<open>standings_client req =
     (if model req = ''gpt-4o-search-preview''
      then Returns [\<lparr>msg_content = Some ''Premier League: 1. Arsenal 30 pts'', msg_tool_calls = None\<rparr>]
      else Returns
        [\<lparr>msg_content = Some ''Here is the table.'',
          msg_tool_calls =
            (if tools req = None then None
             else Some [\<lparr>call_name = ''display_standings_table'',
                          call_arguments = ''{"league_name": "Premier League", "standings": []}''\<rparr>,
                        \<lparr>call_name = ''get_team_news'', call_arguments = ''{}''\<rparr>])\<rparr>])\<close>

text \<open>The same provider answering with the first of the two tool calls only.\<close>

definition standings_only_client :: provider where
  \<open>standings_only_client req =
     Returns
       [\<lparr>msg_content = Some ''Here is the table.'',
         msg_tool_calls =
           Some [\<lparr>call_name = ''display_standings_table'',
                  call_arguments = ''{"league_name": "Premier League", "standings": []}''\<rparr>]\<rparr>]\<close>

text \<open>
  A provider whose search model is unreachable while its chat model works: the chat model
  answers with a tool call when tools are offered, with plain text otherwise.
\<close>

definition search_down_client :: provider where
  "search_down_client req =
     (if model req = ''gpt-4o-search-preview''
      then Raises (Exn ''APIConnectionError'' ''Connection error.'')
      else Returns
        [\<lparr>msg_content = Some ''Here is the table.'',
          msg_tool_calls =
            (if tools req = None then None
             else Some [\<lparr>call_name = ''display_standings_table'', call_arguments = ''{}''\<rparr>])\<rparr>])"

text \<open>A provider whose chat model answers with a link that has no text.\<close>

definition empty_link_client :: provider where
  "empty_link_client req =
     (if model req = ''gpt-4o-search-preview''
      then Returns [\<lparr>msg_content = Some ''No data fetching is required.'', msg_tool_calls = None\<rparr>]
      else Returns [\<lparr>msg_content = Some ''[](https://example.com)'', msg_tool_calls = None\<rparr>])"

text \<open>A provider whose chat model answers with a tool call whose arguments are cut off.\<close>

definition malformed_client :: provider where
  \<open>malformed_client req =
     (if model req = ''gpt-4o-search-preview''
      then Returns [\<lparr>msg_content = Some ''Premier League: 1. Arsenal 30 pts'', msg_tool_calls = None\<rparr>]
      else Returns
        [\<lparr>msg_content = Some ''Here is the table.'',
          msg_tool_calls =
            Some [\<lparr>call_name = ''display_standings_table'',
                   call_arguments = ''{league_name''\<rparr>]\<rparr>])\<close>

text \<open>
  A run for the examples: user \<open>ann\<close> makes six small-talk requests; in between, user
  \<open>bob\<close> sends an empty query, which the route rejects, and a query while the provider
  is unreachable.
\<close>

definition example_run :: "(provider \<times> chat_request) list" where
  "example_run =
     [(smalltalk_client, \<lparr>user_id = ''ann'', query = ''q1''\<rparr>),
      (smalltalk_client, \<lparr>user_id = ''ann'', query = ''q2''\<rparr>),
      (smalltalk_client, \<lparr>user_id = ''bob'', query = []\<rparr>),
      (smalltalk_client, \<lparr>user_id = ''ann'', query = ''q3''\<rparr>),
      (smalltalk_client, \<lparr>user_id = ''ann'', query = ''q4''\<rparr>),
      (offline_client, \<lparr>user_id = ''bob'', query = ''hi''\<rparr>),
      (smalltalk_client, \<lparr>user_id = ''ann'', query = ''q5''\<rparr>),
      (smalltalk_client, \<lparr>user_id = ''ann'', query = ''q6''\<rparr>)]"

section \<open>Auxiliary facts\<close>

subsection \<open>The matcher reads one line\<close>

lemma first_line_simps [simp]:
  "first_line [] = []"
  "first_line (c # cs) = (if c = newline then [] else c # first_line cs)"
  by (simp_all add: first_line_def)

lemma newline_literals [simp]:
  "CHR '')'' \<noteq> newline" "CHR ''['' \<noteq> newline" "CHR '']'' \<noteq> newline"
  "newline \<noteq> CHR ''[''"
  "newline \<notin> set ''://''" "newline \<notin> set ''s''" "newline \<notin> set ''](http''"
  by (simp_all add: newline_def)

lemma match_url_line: "match_url (first_line s) = map_option first_line (match_url s)"
  by (induction s) auto

lemma strip_prefix_line:
  "newline \<notin> set p \<Longrightarrow> strip_prefix p (first_line s) = map_option first_line (strip_prefix p s)"
  by (induction p s rule: strip_prefix.induct) auto

lemma match_scheme_rest_line:
  "match_scheme_rest (first_line s) = map_option first_line (match_scheme_rest s)"
  by (simp add: match_scheme_rest_def strip_prefix_line [OF newline_literals(5)] match_url_line
           split: option.splits)

lemma match_tail_line: "match_tail (first_line s) = map_option first_line (match_tail s)"
  by (simp add: match_tail_def strip_prefix_line [OF newline_literals(6)]
                strip_prefix_line [OF newline_literals(7)] match_scheme_rest_line
           split: option.splits)

lemma match_tail_newline [simp]: "match_tail (newline # cs) = None"
  using newline_literals(3) by (simp add: match_tail_def)

lemma match_tail_Nil [simp]: "match_tail [] = None"
  by (simp add: match_tail_def)

lemma match_group_line:
  "match_group (first_line s) = map_option (\<lambda>(g, r). (g, first_line r)) (match_group s)"
proof (induction s)
  case Nil
  show ?case by (simp add: match_group.simps [of "[]"])
next
  case (Cons c cs)
  show ?case
  proof (cases "c = newline")
    case True
    then show ?thesis
      by (simp add: match_group.simps [of "[]"] match_group.simps [of "newline # cs"])
  next
    case False
    then show ?thesis
      using Cons match_tail_line [of "c # cs"]
      by (cases "match_group cs")
         (auto simp: match_group.simps [of "c # first_line cs"] match_group.simps [of "c # cs"]
               split: option.splits)
  qed
qed

lemma match_group_None_line:
  "match_group s = None \<longleftrightarrow> match_group (first_line s) = None"
  by (simp add: match_group_line)

lemma match_group_None_Cons:
  "match_group (c # cs) = None \<Longrightarrow> c \<noteq> newline \<Longrightarrow> match_group cs = None"
  by (simp add: match_group.simps [of "c # cs"] split: option.splits)

text \<open>
  Where the pattern does not match after a bracket, nothing matches on the rest of that
  line, so the scan leaves the line as it is.
\<close>

lemma strip_links_keeps_line:
  "match_group s = None \<Longrightarrow> first_line (strip_links s) = first_line s"
proof (induction s rule: strip_links.induct)
  case 1
  show ?case by simp
next
  case (2 c cs)
  show ?case
  proof (cases "c = newline")
    case True
    then show ?thesis by simp
  next
    case False
    with "2.prems" have none: "match_group cs = None"
      by (rule_tac match_group_None_Cons)
    show ?thesis
    proof (cases "c = CHR ''[''")
      case True
      with none "2.IH"(1) show ?thesis by simp
    next
      case False
      with none "2.IH"(3) \<open>c \<noteq> newline\<close> show ?thesis by simp
    qed
  qed
qed

lemma match_group_strip_links_None:
  assumes "match_group s = None"
  shows "match_group (strip_links s) = None"
proof -
  from assms have "match_group (first_line s) = None"
    by (simp add: match_group_None_line [symmetric])
  then have "match_group (first_line (strip_links s)) = None"
    by (simp add: strip_links_keeps_line [OF assms])
  then show ?thesis
    by (simp add: match_group_None_line [symmetric])
qed

lemma strip_links_bracket_free:
  "CHR ''['' \<notin> set g \<Longrightarrow> strip_links (g @ t) = g @ strip_links t"
  by (induction g) auto

subsection \<open>Substrings\<close>

lemma startswith_append: "startswith s (a @ b) \<Longrightarrow> startswith s a"
  by (induction s a rule: startswith.induct) auto

lemma contains_append: "contains s (a @ b) \<Longrightarrow> contains s a"
proof (induction s)
  case Nil
  then show ?case by simp
next
  case (Cons c cs)
  then show ?case by (auto dest: startswith_append)
qed

lemma sentinel_not_attached:
  assumes "contains (lower gathered_data) ''no data fetching is required''"
  shows "\<not> tools_attached gathered_data"
proof -
  from assms have "contains (lower gathered_data) (''no data fetching'' @ '' is required'')"
    by simp
  then have "contains (lower gathered_data) ''no data fetching''"
    by (rule contains_append)
  then show ?thesis
    by (simp add: tools_attached_def)
qed

subsection \<open>The registry and the error handler\<close>

lemma component_type_for_cases:
  "component_type_for n = ''generic_text''
   \<or> component_type_for n \<in> snd ` set TOOL_NAME_TO_COMPONENT_TYPE"
  unfolding component_type_for_def
  by (cases "map_of TOOL_NAME_TO_COMPONENT_TYPE n") (auto dest!: map_of_SomeD intro: rev_image_eqI)

lemma registry_values_nonempty: "\<forall>t \<in> snd ` set TOOL_NAME_TO_COMPONENT_TYPE. t \<noteq> []"
  by (simp add: TOOL_NAME_TO_COMPONENT_TYPE_def)

lemma component_type_for_nonempty: "component_type_for n \<noteq> []"
  using component_type_for_cases [of n] registry_values_nonempty by auto

lemma compose_except_default:
  "compose_except e default_response =
     Inr \<lparr>reply = ''An unexpected server error occurred while formatting the response: ''
                  @ exn_msg e,
          ui_data = \<lparr>component_type = ''generic_text'',
                     data = JObj [(''error'', JStr (exn_msg e))]\<rparr>\<rparr>"
  by (simp add: compose_except_def default_response_def)

lemma compose_except_reply_only:
  "compose_except e (default_response\<lparr>reply := t\<rparr>) = compose_except e default_response"
  by (simp add: compose_except_def default_response_def)

subsection \<open>The Composer always returns\<close>

lemma interpret_message_no_tool_calls:
  assumes "msg_tool_calls m = None \<or> msg_tool_calls m = Some []"
  shows "\<exists>r. interpret_message loads fr m = Inr r \<and> ui_data r = ui_data fr"
  using assms
  by (auto simp: interpret_message_def Let_def split: option.splits list.splits)

text \<open>When a statement of the \<^verbatim>\<open>try\<close> block raises, only the reply has been set.\<close>

lemma interpret_message_raise_state:
  "interpret_message loads fr m = Inl (e, fr') \<Longrightarrow> fr' = fr \<or> (\<exists>t. fr' = fr\<lparr>reply := t\<rparr>)"
  by (auto simp: interpret_message_def Let_def split: option.splits list.splits sum.splits if_splits)

lemma interpret_message_component:
  "interpret_message loads fr m = Inr r \<Longrightarrow>
   component_type (ui_data r) = component_type (ui_data fr)
   \<or> (\<exists>n. component_type (ui_data r) = component_type_for n)"
  by (auto simp: interpret_message_def Let_def split: option.splits list.splits sum.splits if_splits)

lemma compose_try_raise_state:
  "compose_try client loads q h gd = Inl (e, fr) \<Longrightarrow>
   compose_except e fr = compose_except e default_response"
  by (auto simp: compose_try_def compose_except_reply_only
           split: completion.splits list.splits dest!: interpret_message_raise_state)

lemma compose_try_component:
  "compose_try client loads q h gd = Inr r \<Longrightarrow> component_type (ui_data r) \<noteq> []"
  by (auto simp: compose_try_def default_response_def component_type_for_nonempty
           split: completion.splits list.splits dest!: interpret_message_component)

lemma generate_returns:
  "\<exists>r. generate_final_response_with_tools client loads q h gd = Inr r
       \<and> component_type (ui_data r) \<noteq> []"
proof (cases "compose_try client loads q h gd")
  case (Inl a)
  obtain e fr where a: "a = (e, fr)" by (cases a)
  with Inl have "compose_except e fr = compose_except e default_response"
    by (auto dest: compose_try_raise_state)
  with Inl a show ?thesis
    by (simp add: generate_final_response_with_tools_def compose_except_default)
next
  case (Inr r)
  then have "component_type (ui_data r) \<noteq> []"
    by (rule compose_try_component)
  with Inr show ?thesis
    by (simp add: generate_final_response_with_tools_def)
qed

lemma gather_returns: "\<exists>s. gather_real_time_data client q h = Inr s"
  by (simp add: gather_real_time_data_def split: sum.splits)

text \<open>
  The Orchestrator never raises, and the component type of its result is never empty.
  Nothing of the kind holds for the reply (see C1).
\<close>

lemma process_user_query_returns:
  "\<exists>r. process_user_query client loads q h = Inr r \<and> component_type (ui_data r) \<noteq> []"
proof -
  obtain s where "gather_real_time_data client q h = Inr s"
    using gather_returns by blast
  then show ?thesis
    using generate_returns [of client loads q h s] by (simp add: process_user_query_def)
qed

subsection \<open>The history of one user along a run\<close>

lemma length_lastn: "length (lastn n xs) = min n (length xs)"
  by (simp add: lastn_def)

lemma lastn_short: "length xs \<le> n \<Longrightarrow> lastn n xs = xs"
  by (simp add: lastn_def)

text \<open>Truncating after every step keeps what truncating once at the end keeps.\<close>

lemma lastn_lastn_append: "lastn n (lastn n xs @ ys) = lastn n (xs @ ys)"
proof (cases "length xs \<le> n")
  case True
  then show ?thesis by (simp add: lastn_def)
next
  case False
  then show ?thesis
    by (simp add: lastn_def min_def drop_append add.commute)
qed

lemma length_turns_of: "length (turns_of xs) = 2 * length xs"
  by (induction xs rule: turns_of.induct) simp_all

lemma history_of_empty: "history_of Map.empty u = []"
  by (simp add: history_of_def)

lemma history_after_successful_turn:
  assumes "successful_turn client loads hs request"
  shows "history_of (snd (handle_chat client loads hs request)) u
         = (if user_id request = u
            then lastn HISTORY_LIMIT
                   (history_of hs u
                    @ turns_of
                        (case process_user_query client loads (query request) (history_of hs u) of
                           Inr final_result \<Rightarrow> [(query request, reply final_result)]
                         | Inl e \<Rightarrow> []))
            else history_of hs u)"
  using assms
  by (auto simp: successful_turn_def handle_chat_def Let_def appended_turns_def history_of_def
           split: sum.splits)

lemma history_other_user:
  "user_id request \<noteq> u \<Longrightarrow>
   history_of (snd (handle_chat client loads hs request)) u = history_of hs u"
  by (simp add: handle_chat_def Let_def history_of_def split: sum.splits)

lemma successful_turn_exchange:
  assumes "successful_turn client loads hs request"
  shows "\<exists>a. (case process_user_query client loads (query request)
                      (history_of hs (user_id request)) of
                 Inr final_result \<Rightarrow> [(query request, reply final_result)]
               | Inl e \<Rightarrow> []) = [(query request, a)]"
  using assms by (auto simp: successful_turn_def split: sum.splits)

lemma history_after_turn_bounded:
  assumes "length (history_of hs u) \<le> HISTORY_LIMIT"
    and "user_id request = u \<Longrightarrow> successful_turn client loads hs request"
  shows "length (history_of (snd (handle_chat client loads hs request)) u) \<le> HISTORY_LIMIT"
proof (cases "user_id request = u")
  case True
  with assms(2) have "successful_turn client loads hs request"
    by simp
  with True show ?thesis
    by (simp add: history_after_successful_turn length_lastn)
next
  case False
  with assms(1) show ?thesis
    by (simp add: history_other_user)
qed

lemma run_history:
  assumes "turns_successful loads hs steps u"
    and "length (history_of hs u) \<le> HISTORY_LIMIT"
  shows "history_of (run_chats loads hs steps) u
         = lastn HISTORY_LIMIT (history_of hs u @ turns_of (exchanges loads hs steps u))"
  using assms
proof (induction steps arbitrary: hs)
  case Nil
  then show ?case by (simp add: lastn_short)
next
  case (Cons step rest)
  obtain client request where step: "step = (client, request)" by (cases step)
  let ?hs' = "snd (handle_chat client loads hs request)"
  from Cons.prems step
  have ok: "user_id request = u \<Longrightarrow> successful_turn client loads hs request"
    and rest_ok: "turns_successful loads ?hs' rest u"
    by (simp_all split: if_splits)
  from Cons.prems(2) ok have bounded: "length (history_of ?hs' u) \<le> HISTORY_LIMIT"
    by (rule history_after_turn_bounded)
  from Cons.IH [OF rest_ok bounded]
  have ih: "history_of (run_chats loads ?hs' rest) u
            = lastn HISTORY_LIMIT (history_of ?hs' u @ turns_of (exchanges loads ?hs' rest u))" .
  show ?case
  proof (cases "user_id request = u")
    case False
    with ih step show ?thesis
      by (simp add: history_other_user)
  next
    case True
    note ok = ok [OF True]
    from successful_turn_exchange [OF ok] True obtain a where
      a: "(case process_user_query client loads (query request) (history_of hs u) of
             Inr final_result \<Rightarrow> [(query request, reply final_result)]
           | Inl e \<Rightarrow> []) = [(query request, a)]"
      by auto
    with ih step True show ?thesis
      by (simp add: history_after_successful_turn [OF ok] lastn_lastn_append)
  qed
qed

lemma run_exchanges_queries:
  assumes "turns_successful loads hs steps u"
  shows "map fst (exchanges loads hs steps u)
         = map (\<lambda>(client, request). query request) (requests_of steps u)"
  using assms
proof (induction steps arbitrary: hs)
  case Nil
  then show ?case by (simp add: requests_of_def)
next
  case (Cons step rest)
  obtain client request where step: "step = (client, request)" by (cases step)
  let ?hs' = "snd (handle_chat client loads hs request)"
  from Cons.prems step
  have ok: "user_id request = u \<Longrightarrow> successful_turn client loads hs request"
    and rest_ok: "turns_successful loads ?hs' rest u"
    by (simp_all split: if_splits)
  from Cons.IH [OF rest_ok]
  have ih: "map fst (exchanges loads ?hs' rest u)
            = map (\<lambda>(client, request). query request) (requests_of rest u)" .
  show ?case
  proof (cases "user_id request = u")
    case False
    with ih step show ?thesis
      by (simp add: requests_of_def)
  next
    case True
    from successful_turn_exchange [OF ok [OF True]] True obtain a where
      "(case process_user_query client loads (query request) (history_of hs u) of
             Inr final_result \<Rightarrow> [(query request, reply final_result)]
           | Inl e \<Rightarrow> []) = [(query request, a)]"
      by auto
    with ih step True show ?thesis
      by (simp add: requests_of_def)
  qed
qed

section \<open>The claims\<close>

text \<open>
  C1. For every query and history \<^verbatim>\<open>process_user_query\<close> returns a result with a
  non-empty reply and a non-empty component type. The code does return, and the component
  type is never empty (\<open>process_user_query_returns\<close>), but the reply can be empty: when
  the chat model answers with a link that has no text, the substitution leaves the empty
  string, and the fallbacks test the model's text, not the stripped reply.
\<close>

theorem empty_link_reply_is_empty:
  "process_user_query empty_link_client example_loads ''hello'' []
     = Inr \<lparr>reply = [], ui_data = \<lparr>component_type = ''generic_text'', data = JObj []\<rparr>\<rparr>"
  by code_simp

text \<open>
  C2. For gathered data that starts with \<^verbatim>\<open>Error:\<close> the Composer calls the model
  without tools, and the component type is the generic default. In the code the
  conversational prompt is chosen, but line 191 tests the sentinel only: the tools are
  passed, and a tool call of the model decides the component type.
\<close>

theorem error_marker_keeps_tools:
  "gather_real_time_data search_down_client ''Show me the Premier League table'' []
     = Inr ''Error: Could not gather information due to an internal error: Connection error.''
   \<and> no_data_mode ''Error: Could not gather information due to an internal error: Connection error.''
   \<and> tools (compose_request ''Show me the Premier League table'' []
        ''Error: Could not gather information due to an internal error: Connection error.'')
     = Some TOOLS_AVAILABLE
   \<and> process_user_query search_down_client example_loads ''Show me the Premier League table'' []
     = Inr \<lparr>reply = ''Here is the table.'',
            ui_data = \<lparr>component_type = ''standings_table'', data = JObj []\<rparr>\<rparr>"
  by code_simp

text \<open>
  C3. For gathered data that contains "no data fetching is required" in any letter case,
  the Composer's call carries neither tools nor a tool choice, and the component type of
  the result is the generic default. The second part is about the answer to a call without
  tools: it holds for every provider that answers such a call without tool calls.
\<close>

theorem sentinel_means_no_tools:
  assumes "contains (lower gathered_data) ''no data fetching is required''"
  shows "tools (compose_request user_query conversation_history gathered_data) = None
       \<and> tool_choice (compose_request user_query conversation_history gathered_data) = None
       \<and> (honours_tools client \<longrightarrow>
            (\<exists>r. generate_final_response_with_tools client loads user_query conversation_history
                     gathered_data = Inr r
                 \<and> component_type (ui_data r) = ''generic_text''))"
proof -
  let ?req = "compose_request user_query conversation_history gathered_data"
  from assms have off: "\<not> tools_attached gathered_data"
    by (rule sentinel_not_attached)
  then have none: "tools ?req = None" and choice: "tool_choice ?req = None"
    by (simp_all add: compose_request_def)
  have "\<exists>r. generate_final_response_with_tools client loads user_query conversation_history
                gathered_data = Inr r
            \<and> component_type (ui_data r) = ''generic_text''"
    if honours: "honours_tools client"
  proof (cases "client ?req")
    case (Raises e)
    then show ?thesis
      by (simp add: generate_final_response_with_tools_def compose_try_def compose_except_default)
  next
    case (Returns choices)
    show ?thesis
    proof (cases choices)
      case Nil
      with Returns show ?thesis
        by (simp add: generate_final_response_with_tools_def compose_try_def compose_except_default)
    next
      case (Cons m rest)
      with Returns honours none
      have "msg_tool_calls m = None \<or> msg_tool_calls m = Some []"
        unfolding honours_tools_def by blast
      then obtain r where "interpret_message loads default_response m = Inr r"
        and "ui_data r = ui_data default_response"
        using interpret_message_no_tool_calls by blast
      with Returns Cons show ?thesis
        by (simp add: generate_final_response_with_tools_def compose_try_def default_response_def)
    qed
  qed
  with none choice show ?thesis by blast
qed

text \<open>C3 at the sentinel answer of the small-talk provider.\<close>

theorem sentinel_means_no_tools_witness:
  "contains (lower ''No data fetching is required.'') ''no data fetching is required''
   \<and> tools (compose_request ''hello'' [] ''No data fetching is required.'') = None
   \<and> tool_choice (compose_request ''hello'' [] ''No data fetching is required.'') = None
   \<and> (\<exists>r. generate_final_response_with_tools smalltalk_client example_loads ''hello'' []
              ''No data fetching is required.'' = Inr r
          \<and> component_type (ui_data r) = ''generic_text'')"
proof -
  have h: "contains (lower ''No data fetching is required.'') ''no data fetching is required''"
    by code_simp
  have p: "honours_tools smalltalk_client"
    by (auto simp: honours_tools_def smalltalk_client_def split: if_splits)
  show ?thesis
    using h p sentinel_means_no_tools [OF h, of "''hello''" "[]" smalltalk_client example_loads]
    by blast
qed

text \<open>
  C4. When the first choice of the model's answer carries a tool call named \<open>X\<close> whose
  arguments parse to \<open>A\<close>, the \<^verbatim>\<open>ui_data\<close> of the result is exactly the registry's
  component type for \<open>X\<close> (the generic tag for an unknown name) together with \<open>A\<close>.
\<close>

theorem tool_call_round_trip:
  assumes "client (compose_request user_query conversation_history gathered_data)
             = Returns (response_message # other_choices)"
    and "msg_tool_calls response_message = Some (tool_call # other_calls)"
    and "loads (call_arguments tool_call) = Inr function_args"
  shows "\<exists>r. generate_final_response_with_tools client loads user_query conversation_history
                gathered_data = Inr r
            \<and> ui_data r = \<lparr>component_type = component_type_for (call_name tool_call),
                            data = function_args\<rparr>"
  using assms
  by (simp add: generate_final_response_with_tools_def compose_try_def interpret_message_def Let_def)

text \<open>C4 at the standings answer: the arguments arrive in \<^verbatim>\<open>data\<close> unchanged.\<close>

theorem tool_call_round_trip_witness:
  \<open>standings_client (compose_request ''Show me the Premier League table'' []
       ''Premier League: 1. Arsenal 30 pts'')
     = Returns
         [\<lparr>msg_content = Some ''Here is the table.'',
           msg_tool_calls =
             Some [\<lparr>call_name = ''display_standings_table'',
                    call_arguments = ''{"league_name": "Premier League", "standings": []}''\<rparr>,
                   \<lparr>call_name = ''get_team_news'', call_arguments = ''{}''\<rparr>]\<rparr>]
   \<and> example_loads ''{"league_name": "Premier League", "standings": []}''
     = Inr (JObj [(''league_name'', JStr ''Premier League''), (''standings'', JArr [])])
   \<and> (\<exists>r. generate_final_response_with_tools standings_client example_loads
              ''Show me the Premier League table'' [] ''Premier League: 1. Arsenal 30 pts'' = Inr r
          \<and> ui_data r =
              \<lparr>component_type = ''standings_table'',
               data = JObj [(''league_name'', JStr ''Premier League''), (''standings'', JArr [])]\<rparr>)\<close>
proof -
  let ?tc = \<open>\<lparr>call_name = ''display_standings_table'',
              call_arguments = ''{"league_name": "Premier League", "standings": []}''\<rparr>\<close>
  let ?m = "\<lparr>msg_content = Some ''Here is the table.'',
             msg_tool_calls = Some [?tc, \<lparr>call_name = ''get_team_news'', call_arguments = ''{}''\<rparr>]\<rparr>"
  have h1: "standings_client (compose_request ''Show me the Premier League table'' []
              ''Premier League: 1. Arsenal 30 pts'') = Returns [?m]"
    by code_simp
  have h2: "msg_tool_calls ?m
              = Some [?tc, \<lparr>call_name = ''get_team_news'', call_arguments = ''{}''\<rparr>]"
    by simp
  have h3: "example_loads (call_arguments ?tc)
              = Inr (JObj [(''league_name'', JStr ''Premier League''), (''standings'', JArr [])])"
    by code_simp
  have t: "component_type_for (call_name ?tc) = ''standings_table''"
    by code_simp
  from tool_call_round_trip [where client = standings_client and loads = example_loads, OF h1 h2 h3]
    t h1 h3 show ?thesis
    by simp
qed

text \<open>
  C5, as amended. When the Composer's call to the provider raises, the Composer does not
  raise: it returns the reply "An unexpected server error occurred while formatting the
  response: " followed by the failure's description, with the generic component type and
  \<^verbatim>\<open>data\<close> equal to \<^verbatim>\<open>{"error": description}\<close>. (The error field is as long as the
  description the failure carries.)
\<close>

theorem provider_failure_degrades:
  assumes "client (compose_request user_query conversation_history gathered_data) = Raises e"
  shows "generate_final_response_with_tools client loads user_query conversation_history
           gathered_data
         = Inr \<lparr>reply = ''An unexpected server error occurred while formatting the response: ''
                         @ exn_msg e,
                ui_data = \<lparr>component_type = ''generic_text'',
                           data = JObj [(''error'', JStr (exn_msg e))]\<rparr>\<rparr>"
  using assms
  by (simp add: generate_final_response_with_tools_def compose_try_def compose_except_default)

text \<open>C5 as amended, at the unreachable provider.\<close>

theorem provider_failure_degrades_witness:
  "offline_client (compose_request ''Show me the Premier League table'' []
       ''Premier League: 1. Arsenal 30 pts'')
     = Raises (Exn ''APIConnectionError'' ''Connection error.'')
   \<and> generate_final_response_with_tools offline_client example_loads
       ''Show me the Premier League table'' [] ''Premier League: 1. Arsenal 30 pts''
     = Inr \<lparr>reply = ''An unexpected server error occurred while formatting the response: Connection error.'',
            ui_data = \<lparr>component_type = ''generic_text'',
                       data = JObj [(''error'', JStr ''Connection error.'')]\<rparr>\<rparr>"
proof -
  have h: "offline_client (compose_request ''Show me the Premier League table'' []
             ''Premier League: 1. Arsenal 30 pts'')
           = Raises (Exn ''APIConnectionError'' ''Connection error.'')"
    by (simp add: offline_client_def)
  from provider_failure_degrades [where client = offline_client and loads = example_loads, OF h] h
  show ?thesis
    by simp
qed

text \<open>
  C5 as stated fails: at the unreachable provider the reply is not the fixed apology the
  function starts from.
\<close>

theorem provider_failure_reply_counterexample:
  "offline_client (compose_request ''Show me the Premier League table'' []
       ''Premier League: 1. Arsenal 30 pts'')
     = Raises (Exn ''APIConnectionError'' ''Connection error.'')
   \<and> generate_final_response_with_tools offline_client example_loads
       ''Show me the Premier League table'' [] ''Premier League: 1. Arsenal 30 pts''
     = Inr \<lparr>reply = ''An unexpected server error occurred while formatting the response: Connection error.'',
            ui_data = \<lparr>component_type = ''generic_text'',
                       data = JObj [(''error'', JStr ''Connection error.'')]\<rparr>\<rparr>
   \<and> ''An unexpected server error occurred while formatting the response: Connection error.''
     \<noteq> reply default_response"
  by code_simp

text \<open>
  C6. When the arguments of the model's tool call are not well-formed JSON,
  \<^verbatim>\<open>json.loads\<close> raises inside the \<^verbatim>\<open>try\<close> block and the Composer does not raise: it
  returns the error result, the very result it returns when the provider call itself
  raises the same exception.
\<close>

theorem malformed_arguments_degrade:
  assumes "client (compose_request user_query conversation_history gathered_data)
             = Returns (response_message # other_choices)"
    and "msg_tool_calls response_message = Some (tool_call # other_calls)"
    and "loads (call_arguments tool_call) = Inl e"
  shows "generate_final_response_with_tools client loads user_query conversation_history
           gathered_data
         = Inr \<lparr>reply = ''An unexpected server error occurred while formatting the response: ''
                         @ exn_msg e,
                ui_data = \<lparr>component_type = ''generic_text'',
                           data = JObj [(''error'', JStr (exn_msg e))]\<rparr>\<rparr>
       \<and> generate_final_response_with_tools client loads user_query conversation_history
           gathered_data
         = generate_final_response_with_tools (\<lambda>req. Raises e) loads user_query
             conversation_history gathered_data"
proof -
  from assms obtain fr where
    "compose_try client loads user_query conversation_history gathered_data = Inl (e, fr)"
    by (auto simp: compose_try_def interpret_message_def Let_def)
  then have "generate_final_response_with_tools client loads user_query conversation_history
               gathered_data = compose_except e default_response"
    by (simp add: generate_final_response_with_tools_def compose_try_raise_state)
  moreover have "generate_final_response_with_tools (\<lambda>req. Raises e) loads user_query
                   conversation_history gathered_data = compose_except e default_response"
    by (simp add: generate_final_response_with_tools_def compose_try_def)
  ultimately show ?thesis
    by (simp add: compose_except_default)
qed

text \<open>C6 at a tool call whose arguments are cut off.\<close>

theorem malformed_arguments_degrade_witness:
  "malformed_client (compose_request ''Show me the Premier League table'' []
       ''Premier League: 1. Arsenal 30 pts'')
     = Returns
         [\<lparr>msg_content = Some ''Here is the table.'',
           msg_tool_calls =
             Some [\<lparr>call_name = ''display_standings_table'', call_arguments = ''{league_name''\<rparr>]\<rparr>]
   \<and> example_loads ''{league_name''
     = Inl (Exn ''JSONDecodeError''
              ''Expecting property name enclosed in double quotes: line 1 column 2 (char 1)'')
   \<and> generate_final_response_with_tools malformed_client example_loads
       ''Show me the Premier League table'' [] ''Premier League: 1. Arsenal 30 pts''
     = Inr \<lparr>reply = ''An unexpected server error occurred while formatting the response: Expecting property name enclosed in double quotes: line 1 column 2 (char 1)'',
            ui_data = \<lparr>component_type = ''generic_text'',
                       data = JObj [(''error'', JStr ''Expecting property name enclosed in double quotes: line 1 column 2 (char 1)'')]\<rparr>\<rparr>
   \<and> generate_final_response_with_tools malformed_client example_loads
       ''Show me the Premier League table'' [] ''Premier League: 1. Arsenal 30 pts''
     = generate_final_response_with_tools
         (\<lambda>req. Raises (Exn ''JSONDecodeError''
              ''Expecting property name enclosed in double quotes: line 1 column 2 (char 1)''))
         example_loads ''Show me the Premier League table'' []
         ''Premier League: 1. Arsenal 30 pts''"
proof -
  let ?tc = "\<lparr>call_name = ''display_standings_table'', call_arguments = ''{league_name''\<rparr>"
  let ?m = "\<lparr>msg_content = Some ''Here is the table.'', msg_tool_calls = Some [?tc]\<rparr>"
  let ?e = "Exn ''JSONDecodeError''
              ''Expecting property name enclosed in double quotes: line 1 column 2 (char 1)''"
  have h1: "malformed_client (compose_request ''Show me the Premier League table'' []
              ''Premier League: 1. Arsenal 30 pts'') = Returns [?m]"
    by code_simp
  have h2: "msg_tool_calls ?m = Some [?tc]"
    by simp
  have h3: "example_loads (call_arguments ?tc) = Inl ?e"
    by code_simp
  note main = malformed_arguments_degrade
         [where client = malformed_client and loads = example_loads, OF h1 h2 h3]
  have c1: "generate_final_response_with_tools malformed_client example_loads
       ''Show me the Premier League table'' [] ''Premier League: 1. Arsenal 30 pts''
     = Inr \<lparr>reply = ''An unexpected server error occurred while formatting the response: Expecting property name enclosed in double quotes: line 1 column 2 (char 1)'',
            ui_data = \<lparr>component_type = ''generic_text'',
                       data = JObj [(''error'', JStr ''Expecting property name enclosed in double quotes: line 1 column 2 (char 1)'')]\<rparr>\<rparr>"
    using main [THEN conjunct1] by simp
  have c2: "generate_final_response_with_tools malformed_client example_loads
       ''Show me the Premier League table'' [] ''Premier League: 1. Arsenal 30 pts''
     = generate_final_response_with_tools (\<lambda>req. Raises ?e)
         example_loads ''Show me the Premier League table'' []
         ''Premier League: 1. Arsenal 30 pts''"
    using main [THEN conjunct2] .
  have h3': "example_loads ''{league_name'' = Inl ?e"
    using h3 by simp
  from h1 h3' c1 c2 show ?thesis
    by (intro conjI)
qed

text \<open>
  C7. The Gatherer returns a string on every input and never raises; when the provider
  call raises, the string is "Error: Could not gather information due to an internal
  error: " followed by the failure's description, so it starts with \<^verbatim>\<open>Error:\<close>.
\<close>

theorem gatherer_returns_string:
  "\<exists>s. gather_real_time_data client user_query conversation_history = Inr s
       \<and> (\<forall>e. client (gather_request user_query conversation_history) = Raises e \<longrightarrow>
              s = ''Error: Could not gather information due to an internal error: '' @ exn_msg e
              \<and> startswith s ''Error:'')"
  by (cases "client (gather_request user_query conversation_history)")
     (auto simp: gather_real_time_data_def gather_try_def split: list.splits option.splits)

text \<open>C7 at the unreachable provider.\<close>

theorem gatherer_returns_string_witness:
  "offline_client (gather_request ''Show me the Premier League table'' [])
     = Raises (Exn ''APIConnectionError'' ''Connection error.'')
   \<and> gather_real_time_data offline_client ''Show me the Premier League table'' []
     = Inr ''Error: Could not gather information due to an internal error: Connection error.''
   \<and> startswith ''Error: Could not gather information due to an internal error: Connection error.''
       ''Error:''"
proof -
  have h: "offline_client (gather_request ''Show me the Premier League table'' [])
           = Raises (Exn ''APIConnectionError'' ''Connection error.'')"
    by (simp add: offline_client_def)
  from gatherer_returns_string [of offline_client "''Show me the Premier League table''" "[]"]
  obtain s where s: "gather_real_time_data offline_client ''Show me the Premier League table'' [] = Inr s"
    and e: "\<forall>e. offline_client (gather_request ''Show me the Premier League table'' []) = Raises e \<longrightarrow>
              s = ''Error: Could not gather information due to an internal error: '' @ exn_msg e
              \<and> startswith s ''Error:''"
    by blast
  from e h have "s = ''Error: Could not gather information due to an internal error: Connection error.''"
    and "startswith s ''Error:''"
    by simp_all
  with s h show ?thesis
    by simp
qed

text \<open>
  C8, as amended. Stripping links twice gives the same text as stripping them once on
  every text in which no stripped link has a \<^verbatim>\<open>[\<close> in its own text, that is, whose
  links are not nested.
\<close>

theorem strip_links_idempotent_flat:
  "\<forall>g \<in> set (link_texts s). CHR ''['' \<notin> set g \<Longrightarrow>
   strip_links (strip_links s) = strip_links s"
proof (induction s rule: strip_links.induct)
  case 1
  show ?case by simp
next
  case (2 c cs)
  show ?case
  proof (cases "c = CHR ''[''")
    case False
    with 2 show ?thesis by simp
  next
    case True
    show ?thesis
    proof (cases "match_group cs")
      case None
      with True 2 show ?thesis
        by (simp add: match_group_strip_links_None)
    next
      case (Some gr)
      obtain g r where gr: "gr = (g, r)" by (cases gr)
      with True Some "2.prems" have flat: "CHR ''['' \<notin> set g"
        and rest: "\<forall>g \<in> set (link_texts r). CHR ''['' \<notin> set g"
        by simp_all
      from "2.IH"(2) [OF True Some gr [symmetric] rest]
      have "strip_links (strip_links r) = strip_links r" .
      with True Some gr flat show ?thesis
        by (simp add: strip_links_bracket_free)
    qed
  qed
qed

text \<open>C8 as amended, at a reply with one link.\<close>

theorem strip_links_idempotent_flat_witness:
  "link_texts ''see [source](http://example.com) now'' = [''source'']
   \<and> CHR ''['' \<notin> set ''source''
   \<and> strip_links ''see [source](http://example.com) now'' = ''see source now''
   \<and> strip_links (strip_links ''see [source](http://example.com) now'')
     = strip_links ''see [source](http://example.com) now''"
proof -
  have lt: "link_texts ''see [source](http://example.com) now'' = [''source'']"
    by code_simp
  have h: "\<forall>g \<in> set (link_texts ''see [source](http://example.com) now''). CHR ''['' \<notin> set g"
    unfolding lt by simp
  have v: "strip_links ''see [source](http://example.com) now'' = ''see source now''"
    by code_simp
  have b: "CHR ''['' \<notin> set ''source''"
    by simp
  from lt b v strip_links_idempotent_flat [OF h] show ?thesis
    by (intro conjI)
qed

text \<open>
  C8 as stated fails: with a link inside the text of a link, the first pass matches from
  the outer bracket to the end of the inner link and leaves a link, which a second pass
  strips.
\<close>

theorem strip_links_not_idempotent:
  "strip_links ''[[a](http://x)](http://y)'' = ''[a](http://y)''
   \<and> strip_links (strip_links ''[[a](http://x)](http://y)'') = ''a''
   \<and> strip_links (strip_links ''[[a](http://x)](http://y)'')
     \<noteq> strip_links ''[[a](http://x)](http://y)''"
  by code_simp

text \<open>
  C9. Start from the empty store and let every chat turn of user \<open>u\<close> in a run be
  successful. Then the stored history of \<open>u\<close> is the last \<open>HISTORY_LIMIT\<close> (ten) turns
  of all the turns of the user's exchanges, in their order: the queries are those of the
  user's requests, the replies those the service gave. With \<open>M\<close> requests of the user
  its length is the smaller of \<open>2 * M\<close> and ten (ten as soon as \<open>M\<close> is five or more),
  and never more than ten.
\<close>

theorem history_keeps_most_recent_turns:
  assumes "turns_successful loads Map.empty steps u"
  shows "history_of (run_chats loads Map.empty steps) u
           = lastn HISTORY_LIMIT (turns_of (exchanges loads Map.empty steps u))
       \<and> map fst (exchanges loads Map.empty steps u)
           = map (\<lambda>(client, request). query request) (requests_of steps u)
       \<and> length (history_of (run_chats loads Map.empty steps) u)
           = min (2 * length (requests_of steps u)) HISTORY_LIMIT
       \<and> length (history_of (run_chats loads Map.empty steps) u) \<le> HISTORY_LIMIT"
proof -
  have hist: "history_of (run_chats loads Map.empty steps) u
                = lastn HISTORY_LIMIT (turns_of (exchanges loads Map.empty steps u))"
    using run_history [OF assms] by (simp add: history_of_empty)
  have queries: "map fst (exchanges loads Map.empty steps u)
                   = map (\<lambda>(client, request). query request) (requests_of steps u)"
    using assms by (rule run_exchanges_queries)
  from queries have "length (map fst (exchanges loads Map.empty steps u))
                       = length (map (\<lambda>(client, request). query request) (requests_of steps u))"
    by simp
  then have count: "length (exchanges loads Map.empty steps u) = length (requests_of steps u)"
    by simp
  from hist count have len: "length (history_of (run_chats loads Map.empty steps) u)
                               = min (2 * length (requests_of steps u)) HISTORY_LIMIT"
    by (simp add: length_lastn length_turns_of min.commute)
  from hist queries len show ?thesis
    by simp
qed

text \<open>
  C9 on the example run: after six successful turns of \<open>ann\<close> the stored history holds
  the ten turns of the last five exchanges; the first exchange is gone, and the requests
  of \<open>bob\<close> have left no trace in it.
\<close>

theorem history_keeps_most_recent_turns_witness:
  "turns_successful example_loads Map.empty example_run ''ann''
   \<and> length (requests_of example_run ''ann'') = 6
   \<and> history_of (run_chats example_loads Map.empty example_run) ''ann''
     = [\<lparr>role = ''user'', content = ''q2''\<rparr>,
        \<lparr>role = ''assistant'', content = ''Hello! I am GameNerd.''\<rparr>,
        \<lparr>role = ''user'', content = ''q3''\<rparr>,
        \<lparr>role = ''assistant'', content = ''Hello! I am GameNerd.''\<rparr>,
        \<lparr>role = ''user'', content = ''q4''\<rparr>,
        \<lparr>role = ''assistant'', content = ''Hello! I am GameNerd.''\<rparr>,
        \<lparr>role = ''user'', content = ''q5''\<rparr>,
        \<lparr>role = ''assistant'', content = ''Hello! I am GameNerd.''\<rparr>,
        \<lparr>role = ''user'', content = ''q6''\<rparr>,
        \<lparr>role = ''assistant'', content = ''Hello! I am GameNerd.''\<rparr>]
   \<and> length (history_of (run_chats example_loads Map.empty example_run) ''ann'') = 10"
proof -
  have h: "turns_successful example_loads Map.empty example_run ''ann''"
    by code_simp
  have r: "length (requests_of example_run ''ann'') = 6"
    by code_simp
  have e: "exchanges example_loads Map.empty example_run ''ann''
           = [(''q1'', ''Hello! I am GameNerd.''), (''q2'', ''Hello! I am GameNerd.''),
              (''q3'', ''Hello! I am GameNerd.''), (''q4'', ''Hello! I am GameNerd.''),
              (''q5'', ''Hello! I am GameNerd.''), (''q6'', ''Hello! I am GameNerd.'')]"
    by code_simp
  have t: "lastn HISTORY_LIMIT
             (turns_of [(''q1'', ''Hello! I am GameNerd.''), (''q2'', ''Hello! I am GameNerd.''),
                        (''q3'', ''Hello! I am GameNerd.''), (''q4'', ''Hello! I am GameNerd.''),
                        (''q5'', ''Hello! I am GameNerd.''), (''q6'', ''Hello! I am GameNerd.'')])
           = [\<lparr>role = ''user'', content = ''q2''\<rparr>,
              \<lparr>role = ''assistant'', content = ''Hello! I am GameNerd.''\<rparr>,
              \<lparr>role = ''user'', content = ''q3''\<rparr>,
              \<lparr>role = ''assistant'', content = ''Hello! I am GameNerd.''\<rparr>,
              \<lparr>role = ''user'', content = ''q4''\<rparr>,
              \<lparr>role = ''assistant'', content = ''Hello! I am GameNerd.''\<rparr>,
              \<lparr>role = ''user'', content = ''q5''\<rparr>,
              \<lparr>role = ''assistant'', content = ''Hello! I am GameNerd.''\<rparr>,
              \<lparr>role = ''user'', content = ''q6''\<rparr>,
              \<lparr>role = ''assistant'', content = ''Hello! I am GameNerd.''\<rparr>]"
    by code_simp
  note main = history_keeps_most_recent_turns [OF h]
  from main have "history_of (run_chats example_loads Map.empty example_run) ''ann''
                  = lastn HISTORY_LIMIT (turns_of (exchanges example_loads Map.empty example_run ''ann''))"
    by (rule conjunct1)
  with e t have v: "history_of (run_chats example_loads Map.empty example_run) ''ann''
     = [\<lparr>role = ''user'', content = ''q2''\<rparr>,
        \<lparr>role = ''assistant'', content = ''Hello! I am GameNerd.''\<rparr>,
        \<lparr>role = ''user'', content = ''q3''\<rparr>,
        \<lparr>role = ''assistant'', content = ''Hello! I am GameNerd.''\<rparr>,
        \<lparr>role = ''user'', content = ''q4''\<rparr>,
        \<lparr>role = ''assistant'', content = ''Hello! I am GameNerd.''\<rparr>,
        \<lparr>role = ''user'', content = ''q5''\<rparr>,
        \<lparr>role = ''assistant'', content = ''Hello! I am GameNerd.''\<rparr>,
        \<lparr>role = ''user'', content = ''q6''\<rparr>,
        \<lparr>role = ''assistant'', content = ''Hello! I am GameNerd.''\<rparr>]"
    by simp
  then have len: "length (history_of (run_chats example_loads Map.empty example_run) ''ann'') = 10"
    by simp
  from h r v len show ?thesis
    by (intro conjI)
qed

text \<open>
  C10. When the model's answer carries several tool calls, the Composer builds its result
  from the first one alone. If the arguments of the first call parse to \<open>A\<close>, the
  \<^verbatim>\<open>ui_data\<close> is the registry's component type for the first call's name together with
  \<open>A\<close>, and the reply is the model's stripped text or, without text, the fixed
  acknowledgment; if they do not parse, the result is the error result for that failure.
  The later calls and the later choices occur nowhere in the result: it is the one the
  Composer gives for the same answer with the first tool call alone.
\<close>

theorem only_first_tool_call_used:
  assumes "client (compose_request user_query conversation_history gathered_data)
             = Returns (response_message # other_choices)"
    and "msg_tool_calls response_message = Some (tool_call # other_calls)"
  shows "(case loads (call_arguments tool_call) of
            Inr function_args \<Rightarrow>
              generate_final_response_with_tools client loads user_query conversation_history
                gathered_data
              = Inr \<lparr>reply =
                       (case msg_content response_message of
                          Some text \<Rightarrow>
                            (if text \<noteq> [] then strip_links text
                             else ''Certainly! Here is the information you requested.'')
                        | None \<Rightarrow> ''Certainly! Here is the information you requested.''),
                     ui_data = \<lparr>component_type = component_type_for (call_name tool_call),
                                data = function_args\<rparr>\<rparr>
          | Inl e \<Rightarrow>
              generate_final_response_with_tools client loads user_query conversation_history
                gathered_data
              = Inr \<lparr>reply =
                       ''An unexpected server error occurred while formatting the response: ''
                       @ exn_msg e,
                     ui_data = \<lparr>component_type = ''generic_text'',
                                data = JObj [(''error'', JStr (exn_msg e))]\<rparr>\<rparr>)
       \<and> generate_final_response_with_tools client loads user_query conversation_history
           gathered_data
         = generate_final_response_with_tools
             (\<lambda>req. Returns [response_message\<lparr>msg_tool_calls := Some [tool_call]\<rparr>])
             loads user_query conversation_history gathered_data"
proof -
  have built: "(case loads (call_arguments tool_call) of
            Inr function_args \<Rightarrow>
              generate_final_response_with_tools client loads user_query conversation_history
                gathered_data
              = Inr \<lparr>reply =
                       (case msg_content response_message of
                          Some text \<Rightarrow>
                            (if text \<noteq> [] then strip_links text
                             else ''Certainly! Here is the information you requested.'')
                        | None \<Rightarrow> ''Certainly! Here is the information you requested.''),
                     ui_data = \<lparr>component_type = component_type_for (call_name tool_call),
                                data = function_args\<rparr>\<rparr>
          | Inl e \<Rightarrow>
              generate_final_response_with_tools client loads user_query conversation_history
                gathered_data
              = Inr \<lparr>reply =
                       ''An unexpected server error occurred while formatting the response: ''
                       @ exn_msg e,
                     ui_data = \<lparr>component_type = ''generic_text'',
                                data = JObj [(''error'', JStr (exn_msg e))]\<rparr>\<rparr>)"
  proof (cases "loads (call_arguments tool_call)")
    case (Inr function_args)
    with assms show ?thesis
      by (simp add: generate_final_response_with_tools_def compose_try_def interpret_message_def
                    Let_def truthy_def default_response_def split: option.splits)
  next
    case (Inl e)
    with assms obtain fr where
      "compose_try client loads user_query conversation_history gathered_data = Inl (e, fr)"
      by (auto simp: compose_try_def interpret_message_def Let_def)
    then have "generate_final_response_with_tools client loads user_query conversation_history
                 gathered_data = compose_except e default_response"
      by (simp add: generate_final_response_with_tools_def compose_try_raise_state)
    with Inl show ?thesis
      by (simp add: compose_except_default)
  qed
  from assms(2)
  have "interpret_message loads default_response
          (response_message\<lparr>msg_tool_calls := Some [tool_call]\<rparr>)
        = interpret_message loads default_response response_message"
    by (simp add: interpret_message_def Let_def split: sum.splits)
  with assms(1)
  have same: "generate_final_response_with_tools client loads user_query conversation_history
           gathered_data
         = generate_final_response_with_tools
             (\<lambda>req. Returns [response_message\<lparr>msg_tool_calls := Some [tool_call]\<rparr>])
             loads user_query conversation_history gathered_data"
    by (simp add: generate_final_response_with_tools_def compose_try_def)
  from built same show ?thesis
    by (rule conjI)
qed

text \<open>
  C10 at the standings answer, which carries two tool calls: the result is built from
  \<^verbatim>\<open>display_standings_table\<close> and its arguments; \<^verbatim>\<open>get_team_news\<close> leaves no trace.
\<close>

theorem only_first_tool_call_used_witness:
  \<open>standings_client (compose_request ''Show me the Premier League table'' []
       ''Premier League: 1. Arsenal 30 pts'')
     = Returns
         [\<lparr>msg_content = Some ''Here is the table.'',
           msg_tool_calls =
             Some [\<lparr>call_name = ''display_standings_table'',
                    call_arguments = ''{"league_name": "Premier League", "standings": []}''\<rparr>,
                   \<lparr>call_name = ''get_team_news'', call_arguments = ''{}''\<rparr>]\<rparr>]
   \<and> generate_final_response_with_tools standings_client example_loads
       ''Show me the Premier League table'' [] ''Premier League: 1. Arsenal 30 pts''
     = Inr \<lparr>reply = ''Here is the table.'',
            ui_data =
              \<lparr>component_type = ''standings_table'',
               data = JObj [(''league_name'', JStr ''Premier League''), (''standings'', JArr [])]\<rparr>\<rparr>
   \<and> generate_final_response_with_tools standings_client example_loads
       ''Show me the Premier League table'' [] ''Premier League: 1. Arsenal 30 pts''
     = generate_final_response_with_tools standings_only_client example_loads
         ''Show me the Premier League table'' [] ''Premier League: 1. Arsenal 30 pts''\<close>
proof -
  let ?tc = \<open>\<lparr>call_name = ''display_standings_table'',
              call_arguments = ''{"league_name": "Premier League", "standings": []}''\<rparr>\<close>
  let ?m = "\<lparr>msg_content = Some ''Here is the table.'',
             msg_tool_calls = Some [?tc, \<lparr>call_name = ''get_team_news'', call_arguments = ''{}''\<rparr>]\<rparr>"
  have h1: "standings_client (compose_request ''Show me the Premier League table'' []
              ''Premier League: 1. Arsenal 30 pts'') = Returns [?m]"
    by code_simp
  have h2: "msg_tool_calls ?m
              = Some [?tc, \<lparr>call_name = ''get_team_news'', call_arguments = ''{}''\<rparr>]"
    by simp
  have h3: "example_loads (call_arguments ?tc)
              = Inr (JObj [(''league_name'', JStr ''Premier League''), (''standings'', JArr [])])"
    by code_simp
  have t: "component_type_for (call_name ?tc) = ''standings_table''"
    by code_simp
  have s: "strip_links ''Here is the table.'' = ''Here is the table.''"
    by code_simp
  have same: "(\<lambda>req. Returns [?m\<lparr>msg_tool_calls := Some [?tc]\<rparr>]) = standings_only_client"
    by (rule ext) (simp add: standings_only_client_def)
  note main = only_first_tool_call_used
         [where client = standings_client and loads = example_loads, OF h1 h2]
  from main [THEN conjunct1] h3 t s
  have c1: "generate_final_response_with_tools standings_client example_loads
       ''Show me the Premier League table'' [] ''Premier League: 1. Arsenal 30 pts''
     = Inr \<lparr>reply = ''Here is the table.'',
            ui_data =
              \<lparr>component_type = ''standings_table'',
               data = JObj [(''league_name'', JStr ''Premier League''), (''standings'', JArr [])]\<rparr>\<rparr>"
    by simp
  from main [THEN conjunct2] same
  have c2: "generate_final_response_with_tools standings_client example_loads
       ''Show me the Premier League table'' [] ''Premier League: 1. Arsenal 30 pts''
     = generate_final_response_with_tools standings_only_client example_loads
         ''Show me the Premier League table'' [] ''Premier League: 1. Arsenal 30 pts''"
    by simp
  from h1 c1 c2 show ?thesis
    by (intro conjI)
qed

end
